theory Spec2Isabelle
  imports Complex_Main "HOL-Library.Word"
begin

section \<open>JavaScript values\<close>

text \<open>
  The request body reaches the handlers as parsed JSON, and TypeScript's annotations are
  not checked at run time, so every value the code tests with \<open>!v\<close>, \<open>typeof\<close>,
  \<open>||\<close> or \<open>!== false\<close> is modelled as a JavaScript value.  A string is the list
  of its code units; an object is the list of its own properties; a number is a real
  (JSON has no \<open>NaN\<close>, so zero is the only number that is falsy).
\<close>

datatype jsval =
    JUndefined
  | JNull
  | JBool bool
  | JNum real
  | JStr string
  | JArr "jsval list"
  | JObj "(string \<times> jsval) list"

text \<open>\<open>!v\<close> is \<open>\<not> truthy v\<close>; \<open>a || b\<close> is \<open>if truthy a then a else b\<close>.\<close>

fun truthy :: "jsval \<Rightarrow> bool" where
  "truthy JUndefined = False"
| "truthy JNull = False"
| "truthy (JBool b) = b"
| "truthy (JNum r) = (r \<noteq> 0)"
| "truthy (JStr s) = (s \<noteq> [])"
| "truthy (JArr xs) = True"
| "truthy (JObj kvs) = True"

text \<open>\<open>typeof v === 'string'\<close>\<close>

fun is_string :: "jsval \<Rightarrow> bool" where
  "is_string (JStr s) = True"
| "is_string v = False"

definition js_or :: "jsval \<Rightarrow> jsval \<Rightarrow> jsval" where
  "js_or a b = (if truthy a then a else b)"

text \<open>Reading a property: \<open>undefined\<close> when the object has no such property.\<close>

definition field :: "(string \<times> jsval) list \<Rightarrow> string \<Rightarrow> jsval" where
  "field kvs k = (case map_of kvs k of None \<Rightarrow> JUndefined | Some v \<Rightarrow> v)"

fun get_prop :: "jsval \<Rightarrow> string \<Rightarrow> jsval" where
  "get_prop (JObj kvs) k = field kvs k"
| "get_prop v k = JUndefined"

text \<open>
  A thrown value is an \<open>Error\<close> instance carrying its message, or anything else.
\<close>

datatype thrown = ErrorObj string | NonError jsval

type_synonym bytes = "8 word list"

section \<open>The renderer: \<open>services/pdfGenerator.ts\<close>\<close>

record GeneratePdfOptions =
  paperSize :: jsval
  margin :: jsval
  printBackground :: jsval

text \<open>The object literal \<open>pdfOptions\<close> handed to \<open>page.pdf\<close>.\<close>

record pdfOptions =
  pdf_format :: jsval
  pdf_margin :: jsval
  pdf_printBackground :: bool

text \<open>
  The browser engine is outside the repository.  Its answers are a parameter of every
  operation: what the \<open>n\<close>-th call of \<open>puppeteer.launch\<close> gives (a browser or a
  rejection), and what each page operation gives.  Browsers and pages are identified by
  numbers.
\<close>

record engine =
  launch :: "nat \<Rightarrow> thrown + nat"
  newPage :: "nat \<Rightarrow> thrown + nat"
  setContent :: "nat \<Rightarrow> string \<Rightarrow> thrown option"
  pdf :: "nat \<Rightarrow> string \<Rightarrow> pdfOptions \<Rightarrow> thrown + bytes"
  page_close :: "nat \<Rightarrow> thrown option"
  browser_close :: "nat \<Rightarrow> thrown option"

text \<open>The calls made to the engine, in order.\<close>

datatype call =
    Launch
  | NewPage nat
  | SetContent nat string
  | Pdf nat pdfOptions
  | ClosePage nat
  | CloseBrowser nat

text \<open>
  \<open>PdfGenerator\<close> has the single field \<open>browser\<close> (\<open>None\<close> is \<open>null\<close>).
  The world adds what the code does to its surroundings: the engine calls made so far
  and the errors written with \<open>console.error\<close>.
\<close>

record PdfGenerator =
  browser :: "nat option"

record world = PdfGenerator +
  calls :: "call list"
  console :: "thrown list"

definition did :: "call \<Rightarrow> world \<Rightarrow> world" where
  "did c w = w\<lparr>calls := calls w @ [c]\<rparr>"

definition logged :: "thrown \<Rightarrow> world \<Rightarrow> world" where
  "logged err w = w\<lparr>console := console w @ [err]\<rparr>"

definition launches :: "world \<Rightarrow> nat" where
  "launches w = length (filter (\<lambda>c. c = Launch) (calls w))"

definition initializeBrowser :: "engine \<Rightarrow> world \<Rightarrow> (thrown + unit) \<times> world" where
  "initializeBrowser e w =
     (if browser w = None then
        (case launch e (launches w) of
           Inl err \<Rightarrow> (Inl err, did Launch w)
         | Inr b \<Rightarrow> (Inr (), (did Launch w)\<lparr>browser := Some b\<rparr>))
      else (Inr (), w))"

text \<open>Step 3 of \<open>generatePdfBuffer\<close>: the print parameters.\<close>

definition option_of :: "GeneratePdfOptions option \<Rightarrow> (GeneratePdfOptions \<Rightarrow> jsval) \<Rightarrow> jsval" where
  "option_of options sel = (case options of None \<Rightarrow> JUndefined | Some opts \<Rightarrow> sel opts)"

definition default_margin :: jsval where
  "default_margin = JObj [(''top'', JStr ''20px''), (''bottom'', JStr ''20px''),
                          (''left'', JStr ''20px''), (''right'', JStr ''20px'')]"

definition make_pdfOptions :: "GeneratePdfOptions option \<Rightarrow> pdfOptions" where
  "make_pdfOptions options =
     \<lparr> pdf_format = js_or (option_of options paperSize) (JStr ''A4''),
       pdf_margin = js_or (option_of options margin) default_margin,
       pdf_printBackground = (option_of options printBackground \<noteq> JBool False) \<rparr>"

text \<open>The string a value of type string holds.\<close>

fun str_of :: "jsval \<Rightarrow> string" where
  "str_of (JStr s) = s"
| "str_of v = []"

text \<open>
  The body of the \<open>try\<close> block of \<open>generatePdfBuffer\<close>.  Each engine call is
  recorded when it is made, whether it then returns or throws.
\<close>

definition generatePdfBuffer_try ::
  "engine \<Rightarrow> world \<Rightarrow> jsval \<Rightarrow> GeneratePdfOptions option \<Rightarrow> (thrown + bytes) \<times> world" where
  "generatePdfBuffer_try e w htmlTemplate options =
     (if \<not> truthy htmlTemplate \<or> \<not> is_string htmlTemplate
      then (Inl (ErrorObj ''HTML Template Not Found or Invalid!''), w)
      else
        (case initializeBrowser e w of
           (Inl err, w1) \<Rightarrow> (Inl err, w1)
         | (Inr u, w1) \<Rightarrow>
             (case browser w1 of
                None \<Rightarrow> (Inl (ErrorObj ''Failed to initialize browser''), w1)
              | Some b \<Rightarrow>
                  (case newPage e b of
                     Inl err \<Rightarrow> (Inl err, did (NewPage b) w1)
                   | Inr page \<Rightarrow>
                       (let w2 = did (NewPage b) w1;
                            pdfOpts = make_pdfOptions options;
                            html = str_of htmlTemplate;
                            w3 = did (SetContent page html) w2
                        in case setContent e page html of
                             Some err \<Rightarrow> (Inl err, w3)
                           | None \<Rightarrow>
                               (let w4 = did (Pdf page pdfOpts) w3
                                in case pdf e page html pdfOpts of
                                     Inl err \<Rightarrow> (Inl err, w4)
                                   | Inr pdfBuffer \<Rightarrow>
                                       (let w5 = did (ClosePage page) w4
                                        in case page_close e page of
                                             Some err \<Rightarrow> (Inl err, w5)
                                           | None \<Rightarrow> (Inr pdfBuffer, w5))))))))"

text \<open>The \<open>catch\<close> block writes the error to the console and throws it again.\<close>

definition generatePdfBuffer ::
  "engine \<Rightarrow> world \<Rightarrow> jsval \<Rightarrow> GeneratePdfOptions option \<Rightarrow> (thrown + bytes) \<times> world" where
  "generatePdfBuffer e w htmlTemplate options =
     (case generatePdfBuffer_try e w htmlTemplate options of
        (Inl err, w1) \<Rightarrow> (Inl err, logged err w1)
      | (Inr pdfBuffer, w1) \<Rightarrow> (Inr pdfBuffer, w1))"

text \<open>
  \<open>Buffer.toString('base64')\<close> belongs to the runtime: the Base64 encoding of RFC 4648
  with the standard alphabet and \<open>=\<close> padding.
\<close>

definition b64 :: "nat \<Rightarrow> char" where
  "b64 n = ''ABCDEFGHIJKLMNOPQRSTUVWXYZabcdefghijklmnopqrstuvwxyz0123456789+/'' ! (n mod 64)"

fun base64 :: "bytes \<Rightarrow> string" where
  "base64 [] = []"
| "base64 [a] =
     (let n = unat a * 65536
      in [b64 (n div 262144), b64 (n div 4096), CHR ''='', CHR ''=''])"
| "base64 [a, b] =
     (let n = unat a * 65536 + unat b * 256
      in [b64 (n div 262144), b64 (n div 4096), b64 (n div 64), CHR ''=''])"
| "base64 (a # b # c # rest) =
     (let n = unat a * 65536 + unat b * 256 + unat c
      in [b64 (n div 262144), b64 (n div 4096), b64 (n div 64), b64 n] @ base64 rest)"

definition generatePdf ::
  "engine \<Rightarrow> world \<Rightarrow> jsval \<Rightarrow> GeneratePdfOptions option \<Rightarrow> (thrown + string) \<times> world" where
  "generatePdf e w htmlTemplate options =
     (case generatePdfBuffer e w htmlTemplate options of
        (Inl err, w1) \<Rightarrow> (Inl err, w1)
      | (Inr pdfBuffer, w1) \<Rightarrow> (Inr (base64 pdfBuffer), w1))"

definition closeBrowser :: "engine \<Rightarrow> world \<Rightarrow> (thrown + unit) \<times> world" where
  "closeBrowser e w =
     (case browser w of
        None \<Rightarrow> (Inr (), w)
      | Some b \<Rightarrow>
          (case browser_close e b of
             Some err \<Rightarrow> (Inl err, did (CloseBrowser b) w)
           | None \<Rightarrow> (Inr (), (did (CloseBrowser b) w)\<lparr>browser := None\<rparr>)))"

section \<open>Callers of \<open>initializeBrowser\<close> that overlap\<close>

text \<open>
  An \<open>async\<close> function runs without interruption up to an \<open>await\<close> and gives way
  there.  \<open>initializeBrowser\<close> has one \<open>await\<close>, between the call of
  \<open>puppeteer.launch\<close> and the assignment to \<open>this.browser\<close>.  A caller is therefore
  in one of four places: not yet entered, waiting for the launch it has started (whose
  outcome the engine has fixed), returned, or thrown.
\<close>

datatype caller = Entering | Awaiting "thrown + nat" | Returned | Threw thrown

fun resume :: "engine \<Rightarrow> caller \<Rightarrow> world \<Rightarrow> caller \<times> world" where
  "resume e Entering w =
     (if browser w = None then (Awaiting (launch e (launches w)), did Launch w)
      else (Returned, w))"
| "resume e (Awaiting (Inl err)) w = (Threw err, w)"
| "resume e (Awaiting (Inr b)) w = (Returned, w\<lparr>browser := Some b\<rparr>)"
| "resume e Returned w = (Returned, w)"
| "resume e (Threw err) w = (Threw err, w)"

text \<open>The event loop resumes caller \<open>i\<close>; a schedule is the order of the resumptions.\<close>

definition step :: "engine \<Rightarrow> caller list \<times> world \<Rightarrow> nat \<Rightarrow> caller list \<times> world" where
  "step e cw i =
     (case cw of (cs, w) \<Rightarrow>
        if i < length cs
        then (case resume e (cs ! i) w of (c, w1) \<Rightarrow> (cs[i := c], w1))
        else (cs, w))"

definition run :: "engine \<Rightarrow> nat list \<Rightarrow> caller list \<times> world \<Rightarrow> caller list \<times> world" where
  "run e schedule cw = foldl (step e) cw schedule"

section \<open>The routes of \<open>index.ts\<close>\<close>

text \<open>
  The handlers follow the swagger definition in \<open>config/swagger.ts\<close>.  A handler
  reads \<open>req.body\<close>, the object left there by \<open>express.json\<close> or
  \<open>express.urlencoded\<close>, given here by its properties.

  A response is the status, the headers the handler sets itself with \<open>setHeader\<close>,
  and the body given to \<open>res.json\<close> or \<open>res.send\<close>.  The status is 200 unless
  \<open>res.status\<close> is called.
\<close>

datatype payload = Json jsval | Text string | Binary bytes

record response =
  status :: nat
  headers :: "(string \<times> jsval) list"
  payload :: payload

definition invalid_request :: response where
  "invalid_request =
     \<lparr> status = 400, headers = [],
       payload = Json (JObj [(''error'', JStr ''Invalid request''),
                             (''message'', JStr ''htmlTemplate is required and must be a string'')]) \<rparr>"

text \<open>\<open>error instanceof Error ? error.message : 'Unknown error occurred'\<close>\<close>

fun message_of :: "thrown \<Rightarrow> string" where
  "message_of (ErrorObj m) = m"
| "message_of (NonError v) = ''Unknown error occurred''"

definition generation_failed :: "thrown \<Rightarrow> response" where
  "generation_failed err =
     \<lparr> status = 500, headers = [],
       payload = Json (JObj [(''error'', JStr ''PDF generation failed''),
                             (''message'', JStr (message_of err))]) \<rparr>"

text \<open>
  The \<open>catch\<close> block of each handler: the error goes to the console and the answer
  is 500.
\<close>

definition caught :: "thrown \<Rightarrow> world \<Rightarrow> response \<times> world" where
  "caught err w = (generation_failed err, logged err w)"

text \<open>\<open>POST /api/Utility/GeneratePdf\<close>\<close>

definition route_GeneratePdf ::
  "engine \<Rightarrow> world \<Rightarrow> (string \<times> jsval) list \<Rightarrow> response \<times> world" where
  "route_GeneratePdf e w body =
     (let htmlTemplate = field body ''htmlTemplate''
      in if \<not> truthy htmlTemplate \<or> \<not> is_string htmlTemplate then (invalid_request, w)
         else
           (case generatePdf e w htmlTemplate None of
              (Inl err, w1) \<Rightarrow> caught err w1
            | (Inr pdfBase64, w1) \<Rightarrow>
                (\<lparr> status = 200, headers = [(''Content-Type'', JStr ''text/plain'')],
                   payload = Text pdfBase64 \<rparr>, w1)))"

text \<open>
  The options of \<open>/api/pdf/generate\<close> and \<open>/api/pdf/download\<close>, built from the
  body in the same way by both.
\<close>

definition build_options :: "(string \<times> jsval) list \<Rightarrow> GeneratePdfOptions" where
  "build_options body =
     \<lparr> paperSize = field body ''paperSize'',
       margin = field body ''margin'',
       printBackground = field body ''printBackground'' \<rparr>"

text \<open>\<open>POST /api/pdf/generate\<close>\<close>

definition route_generate ::
  "engine \<Rightarrow> world \<Rightarrow> (string \<times> jsval) list \<Rightarrow> response \<times> world" where
  "route_generate e w body =
     (let htmlTemplate = field body ''htmlTemplate''
      in if \<not> truthy htmlTemplate \<or> \<not> is_string htmlTemplate then (invalid_request, w)
         else
           (let options = build_options body
            in case generatePdf e w htmlTemplate (Some options) of
                 (Inl err, w1) \<Rightarrow> caught err w1
               | (Inr pdfBase64, w1) \<Rightarrow>
                   (\<lparr> status = 200, headers = [],
                      payload = Json (JObj [(''success'', JBool True),
                                            (''pdf'', JStr pdfBase64),
                                            (''message'', JStr ''PDF generated successfully'')]) \<rparr>,
                    w1)))"

text \<open>
  \<open>POST /api/pdf/download\<close>.  The regular expression \<open>/[^a-zA-Z0-9-_]/g\<close> matches
  one code unit at a time; every match is replaced by an underscore.
\<close>

definition allowed :: "char \<Rightarrow> bool" where
  "allowed c =
     (let n = (of_char c :: nat)
      in (97 \<le> n \<and> n \<le> 122) \<or> (65 \<le> n \<and> n \<le> 90) \<or> (48 \<le> n \<and> n \<le> 57)
         \<or> n = 45 \<or> n = 95)"

definition replace_disallowed :: "string \<Rightarrow> string" where
  "replace_disallowed s = map (\<lambda>c. if allowed c then c else CHR ''_'') s"

text \<open>
  \<open>v.replace(...)\<close>: only a string has the method.  On any other value that is not
  \<open>null\<close> or \<open>undefined\<close> the property is missing or is not a function, and the
  call throws a \<open>TypeError\<close>; its message \<open>tm\<close> is worded by the runtime.
\<close>

definition call_replace :: "string \<Rightarrow> jsval \<Rightarrow> thrown + string" where
  "call_replace tm v =
     (if is_string v then Inr (replace_disallowed (str_of v)) else Inl (ErrorObj tm))"

text \<open>
  The answer of the download route: the three headers and the buffer.  The header value
  is \<open>attachment; filename=\<close> followed by the name with \<open>.pdf\<close> appended, in double
  quotes.
\<close>

definition content_disposition :: "string \<Rightarrow> string" where
  "content_disposition name = ''attachment; filename='' @ [CHR 0x22] @ name @ ''.pdf'' @ [CHR 0x22]"

definition attachment :: "string \<Rightarrow> bytes \<Rightarrow> response" where
  "attachment sanitizedFileName pdfBuffer =
     \<lparr> status = 200,
       headers =
         [(''Content-Type'', JStr ''application/pdf''),
          (''Content-Disposition'', JStr (content_disposition sanitizedFileName)),
          (''Content-Length'', JNum (real (length pdfBuffer)))],
       payload = Binary pdfBuffer \<rparr>"

definition route_download ::
  "string \<Rightarrow> engine \<Rightarrow> world \<Rightarrow> (string \<times> jsval) list \<Rightarrow> response \<times> world" where
  "route_download tm e w body =
     (let htmlTemplate = field body ''htmlTemplate'';
          fileName = field body ''fileName''
      in if \<not> truthy htmlTemplate \<or> \<not> is_string htmlTemplate then (invalid_request, w)
         else
           (let options = build_options body
            in case generatePdfBuffer e w htmlTemplate (Some options) of
                 (Inl err, w1) \<Rightarrow> caught err w1
               | (Inr pdfBuffer, w1) \<Rightarrow>
                   (case call_replace tm (js_or fileName (JStr ''document'')) of
                      Inl err \<Rightarrow> caught err w1
                    | Inr sanitizedFileName \<Rightarrow>
                        (attachment sanitizedFileName pdfBuffer, w1))))"

section \<open>The specification's reading of the file name\<close>

text \<open>
  The specification says that the characters outside \<open>[A-Za-z0-9-_]\<close> are stripped:
  they are taken out of the name.
\<close>

definition strip_disallowed :: "string \<Rightarrow> string" where
  "strip_disallowed s = filter allowed s"

section \<open>An engine and a world for concrete runs\<close>

text \<open>
  An engine in which every call succeeds: the \<open>n\<close>-th launch gives browser \<open>n\<close>,
  every browser opens page 7, and every page prints the five bytes \<open>%PDF-\<close>.
\<close>

definition pdf_bytes :: bytes where
  "pdf_bytes = [0x25, 0x50, 0x44, 0x46, 0x2D]"

definition good_engine :: engine where
  "good_engine =
     \<lparr> launch = (\<lambda>n. Inr n),
       newPage = (\<lambda>b. Inr 7),
       setContent = (\<lambda>p html. None),
       pdf = (\<lambda>p html opts. Inr pdf_bytes),
       page_close = (\<lambda>p. None),
       browser_close = (\<lambda>b. None) \<rparr>"

text \<open>The same engine, except that loading the content fails.\<close>

definition failing_engine :: engine where
  "failing_engine = good_engine\<lparr> setContent := (\<lambda>p html. Some (ErrorObj ''net::ERR_FAILED'')) \<rparr>"

text \<open>The world at start: no browser, no engine call made, nothing on the console.\<close>

definition world0 :: world where
  "world0 = \<lparr> browser = None, calls = [], console = [] \<rparr>"

text \<open>The page used in the concrete runs, and a request body that carries it.\<close>

definition hello :: string where
  "hello = ''<h1>Hello</h1>''"

definition body_named :: "jsval \<Rightarrow> (string \<times> jsval) list" where
  "body_named fileName = [(''htmlTemplate'', JStr hello), (''fileName'', fileName)]"

text \<open>The world after one successful render of that page, started in \<open>world0\<close>.\<close>

definition rendered :: "GeneratePdfOptions option \<Rightarrow> world" where
  "rendered options =
     \<lparr> browser = Some 0,
       calls = [Launch, NewPage 0, SetContent 7 hello, Pdf 7 (make_pdfOptions options),
                ClosePage 7],
       console = [] \<rparr>"

text \<open>Options that give the top margin only: \<open>{margin: {top: '10px'}}\<close>.\<close>

definition top_only :: GeneratePdfOptions where
  "top_only = \<lparr> paperSize = JUndefined, margin = JObj [(''top'', JStr ''10px'')],
                 printBackground = JUndefined \<rparr>"

text \<open>Options that give \<open>printBackground\<close> only: \<open>{printBackground: v}\<close>.\<close>

definition background_only :: "jsval \<Rightarrow> GeneratePdfOptions" where
  "background_only v = \<lparr> paperSize = JUndefined, margin = JUndefined, printBackground = v \<rparr>"

text \<open>How much has been done to the world: a measure for the proofs.\<close>

definition size_of :: "world \<Rightarrow> nat" where
  "size_of w = length (calls w) + length (console w)"

section \<open>Every renderer call leaves a trace\<close>

lemma size_did: "size_of (did c w) = Suc (size_of w)"
  by (simp add: size_of_def did_def)

lemma size_logged: "size_of (logged err w) = Suc (size_of w)"
  by (simp add: size_of_def logged_def)

lemma size_browser_update: "size_of (w\<lparr>browser := b\<rparr>) = size_of w"
  by (simp add: size_of_def)

lemma initializeBrowser_size:
  "initializeBrowser e w = (r, w1) \<Longrightarrow> size_of w \<le> size_of w1"
  by (auto simp: initializeBrowser_def size_did size_browser_update split: if_splits sum.splits)

lemma generatePdfBuffer_try_size:
  assumes "generatePdfBuffer_try e w h opts = (r, w1)"
  shows "size_of w \<le> size_of w1 \<and> (\<forall>buf. r = Inr buf \<longrightarrow> size_of w < size_of w1)"
proof (cases "\<not> truthy h \<or> \<not> is_string h")
  case True
  with assms show ?thesis by (auto simp: generatePdfBuffer_try_def)
next
  case False
  obtain r0 w0 where init: "initializeBrowser e w = (r0, w0)"
    by (cases "initializeBrowser e w")
  from initializeBrowser_size [OF init] have "size_of w \<le> size_of w0" .
  with assms False init show ?thesis
    by (auto simp: generatePdfBuffer_try_def Let_def size_did
             split: sum.splits option.splits)
qed

lemma generatePdfBuffer_size:
  assumes a: "generatePdfBuffer e w h opts = (r, w1)"
  shows "size_of w < size_of w1"
proof -
  obtain r0 w0 where t: "generatePdfBuffer_try e w h opts = (r0, w0)"
    by (cases "generatePdfBuffer_try e w h opts")
  from generatePdfBuffer_try_size [OF t] a t show ?thesis
    by (cases r0) (auto simp: generatePdfBuffer_def size_logged)
qed

lemma generatePdfBuffer_invalid:
  "\<not> truthy h \<or> \<not> is_string h \<Longrightarrow>
   generatePdfBuffer e w h opts =
     (Inl (ErrorObj ''HTML Template Not Found or Invalid!''),
      logged (ErrorObj ''HTML Template Not Found or Invalid!'') w)"
  by (simp add: generatePdfBuffer_def generatePdfBuffer_try_def)

lemma field_absent: "map_of body k = None \<Longrightarrow> field body k = JUndefined"
  by (simp add: field_def)

section \<open>Validation of the input\<close>

text \<open>
  Claim C5.  When the body has no \<open>htmlTemplate\<close>, or has one that is not a string,
  each of the three routes answers 400 with the \<open>error\<close>/\<open>message\<close> object and
  leaves the world as it was.  Since every call of the renderer changes the world (it
  calls the engine or writes to the console), the renderer was not called.  And
  \<open>generatePdfBuffer\<close>, given the empty string or a value that is not a string, throws
  its invalid-input error with no engine call made and the browser field untouched.
\<close>

theorem invalid_htmlTemplate_rejected:
  assumes bad: "map_of body ''htmlTemplate'' = None \<or> \<not> is_string (field body ''htmlTemplate'')"
  shows "route_GeneratePdf e w body = (invalid_request, w)
       \<and> route_generate e w body = (invalid_request, w)
       \<and> route_download tm e w body = (invalid_request, w)
       \<and> status invalid_request = 400
       \<and> payload invalid_request =
            Json (JObj [(''error'', JStr ''Invalid request''),
                        (''message'', JStr ''htmlTemplate is required and must be a string'')])
       \<and> (\<forall>h opts. snd (generatePdfBuffer e w h opts) \<noteq> w \<and> snd (generatePdf e w h opts) \<noteq> w)
       \<and> (\<forall>h opts. h = JStr [] \<or> \<not> is_string h \<longrightarrow>
             fst (generatePdfBuffer e w h opts) = Inl (ErrorObj ''HTML Template Not Found or Invalid!'')
           \<and> calls (snd (generatePdfBuffer e w h opts)) = calls w
           \<and> browser (snd (generatePdfBuffer e w h opts)) = browser w)"
proof -
  from bad have ns: "\<not> is_string (field body ''htmlTemplate'')"
    by (auto simp: field_absent)
  have r1: "route_GeneratePdf e w body = (invalid_request, w)"
    using ns by (simp add: route_GeneratePdf_def)
  have r2: "route_generate e w body = (invalid_request, w)"
    using ns by (simp add: route_generate_def)
  have r3: "route_download tm e w body = (invalid_request, w)"
    using ns by (simp add: route_download_def)
  have shape: "status invalid_request = 400 \<and> payload invalid_request =
            Json (JObj [(''error'', JStr ''Invalid request''),
                        (''message'', JStr ''htmlTemplate is required and must be a string'')])"
    by (simp add: invalid_request_def)
  have mark: "snd (generatePdfBuffer e w h opts) \<noteq> w \<and> snd (generatePdf e w h opts) \<noteq> w"
    for h opts
  proof -
    obtain r w1 where g: "generatePdfBuffer e w h opts = (r, w1)"
      by (cases "generatePdfBuffer e w h opts")
    from generatePdfBuffer_size [OF g] have "w1 \<noteq> w" by auto
    with g show ?thesis by (cases r) (simp_all add: generatePdf_def)
  qed
  have early:
    "fst (generatePdfBuffer e w h opts) = Inl (ErrorObj ''HTML Template Not Found or Invalid!'')
     \<and> calls (snd (generatePdfBuffer e w h opts)) = calls w
     \<and> browser (snd (generatePdfBuffer e w h opts)) = browser w"
    if "h = JStr [] \<or> \<not> is_string h" for h opts
  proof -
    from that have "\<not> truthy h \<or> \<not> is_string h" by auto
    from generatePdfBuffer_invalid [OF this] show ?thesis by (simp add: logged_def)
  qed
  from r1 r2 r3 shape mark early show ?thesis by blast
qed

theorem invalid_htmlTemplate_rejected_witness:
  "route_GeneratePdf good_engine world0 [(''htmlTemplate'', JNum 42)] = (invalid_request, world0)
 \<and> route_generate good_engine world0 [(''htmlTemplate'', JNum 42)] = (invalid_request, world0)
 \<and> route_download ''t'' good_engine world0 [(''htmlTemplate'', JNum 42)] = (invalid_request, world0)
 \<and> fst (generatePdfBuffer good_engine world0 (JStr []) None)
      = Inl (ErrorObj ''HTML Template Not Found or Invalid!'')
 \<and> calls (snd (generatePdfBuffer good_engine world0 (JStr []) None)) = []"
proof -
  have h: "map_of [(''htmlTemplate'', JNum 42)] ''htmlTemplate'' = None
         \<or> \<not> is_string (field [(''htmlTemplate'', JNum 42)] ''htmlTemplate'')"
    by (simp add: field_def)
  from invalid_htmlTemplate_rejected [OF h, of good_engine world0 "''t''"]
  show ?thesis by (simp add: world0_def)
qed

section \<open>Runs on the concrete engine\<close>

lemma good_engine_renders:
  "generatePdfBuffer good_engine world0 (JStr hello) options = (Inr pdf_bytes, rendered options)"
  by (simp add: generatePdfBuffer_def generatePdfBuffer_try_def initializeBrowser_def
        good_engine_def world0_def rendered_def hello_def did_def launches_def Let_def)

section \<open>The engine calls of one render\<close>

lemma initializeBrowser_calls:
  "\<exists>new. calls (snd (initializeBrowser e w)) = calls w @ new \<and> set new \<subseteq> {Launch}"
  by (auto simp: initializeBrowser_def did_def split: sum.splits)

lemma generatePdfBuffer_try_calls:
  "\<exists>new. calls (snd (generatePdfBuffer_try e w h opts)) = calls w @ new
        \<and> (\<forall>page po. Pdf page po \<in> set new \<longrightarrow> po = make_pdfOptions opts)"
proof (cases "\<not> truthy h \<or> \<not> is_string h")
  case True
  then show ?thesis by (auto simp: generatePdfBuffer_try_def)
next
  case False
  obtain r0 w0 where init: "initializeBrowser e w = (r0, w0)"
    by (cases "initializeBrowser e w")
  from initializeBrowser_calls [of e w] init
  obtain n0 where n0: "calls w0 = calls w @ n0" "set n0 \<subseteq> {Launch}" by auto
  from False init n0 show ?thesis
    by (auto simp: generatePdfBuffer_try_def Let_def did_def
             split: sum.splits option.splits)
qed

lemma generatePdfBuffer_calls:
  "\<exists>new. calls (snd (generatePdfBuffer e w h opts)) = calls w @ new
        \<and> (\<forall>page po. Pdf page po \<in> set new \<longrightarrow> po = make_pdfOptions opts)"
proof -
  have "calls (snd (generatePdfBuffer e w h opts)) = calls (snd (generatePdfBuffer_try e w h opts))"
    by (auto simp: generatePdfBuffer_def logged_def split: prod.splits sum.splits)
  with generatePdfBuffer_try_calls [of e w h opts] show ?thesis by simp
qed

section \<open>Base64 output\<close>

lemma base64_length: "length (base64 bs) = 4 * ((length bs + 2) div 3)"
proof (induction bs rule: base64.induct)
  case (4 a b c rest)
  have "(length (a # b # c # rest) + 2) div 3 = Suc ((length rest + 2) div 3)"
    by simp
  with 4 show ?case by (simp add: Let_def)
qed (simp_all add: Let_def)

text \<open>
  Claim C7.  Whenever \<open>generatePdfBuffer\<close> returns a buffer \<open>b\<close>, \<open>generatePdf\<close>
  on the same arguments, engine and world returns the Base64 text of \<open>b\<close> and leaves
  the same world; \<open>generatePdf\<close> throws exactly when \<open>generatePdfBuffer\<close> throws, and
  throws the same value; and \<open>generatePdf\<close> returns nothing but the Base64 text of
  such a buffer.
\<close>

theorem generatePdf_base64_of_buffer:
  "(\<forall>b w1. generatePdfBuffer e w h opts = (Inr b, w1) \<longrightarrow>
             generatePdf e w h opts = (Inr (base64 b), w1))
 \<and> (\<forall>err w1. (generatePdf e w h opts = (Inl err, w1)) = (generatePdfBuffer e w h opts = (Inl err, w1)))
 \<and> (\<forall>s w1. generatePdf e w h opts = (Inr s, w1) \<longrightarrow>
             (\<exists>b. generatePdfBuffer e w h opts = (Inr b, w1) \<and> s = base64 b))"
proof -
  obtain r w0 where g: "generatePdfBuffer e w h opts = (r, w0)"
    by (cases "generatePdfBuffer e w h opts")
  show ?thesis
  proof (cases r)
    case (Inl err)
    with g show ?thesis by (simp add: generatePdf_def)
  next
    case (Inr b)
    with g show ?thesis by (simp add: generatePdf_def)
  qed
qed

theorem generatePdf_base64_of_buffer_witness:
  "generatePdf good_engine world0 (JStr hello) None = (Inr ''JVBERi0='', rendered None)"
proof -
  have "generatePdf good_engine world0 (JStr hello) None = (Inr (base64 pdf_bytes), rendered None)"
    using generatePdf_base64_of_buffer [of good_engine world0 "JStr hello" None]
          good_engine_renders [of None]
    by blast
  then show ?thesis by (simp add: pdf_bytes_def b64_def)
qed

section \<open>Shutting the browser down\<close>

text \<open>
  Claim C8.  With no handle, \<open>closeBrowser\<close> returns normally and changes nothing.
  With a handle it calls the engine's \<open>close\<close> on it, and once that call has returned
  the handle is cleared; if the engine's call throws, the error is passed on and the
  handle stays.  Calling \<open>closeBrowser\<close> twice in sequence gives the result and the
  world of calling it once, and a second call after one that returned changes nothing.
\<close>

theorem closeBrowser_idempotent:
  "(browser w = None \<longrightarrow> closeBrowser e w = (Inr (), w))
 \<and> (\<forall>b. browser w = Some b \<and> browser_close e b = None \<longrightarrow>
        closeBrowser e w = (Inr (), w\<lparr>browser := None, calls := calls w @ [CloseBrowser b]\<rparr>))
 \<and> (\<forall>b err. browser w = Some b \<and> browser_close e b = Some err \<longrightarrow>
        closeBrowser e w = (Inl err, w\<lparr>calls := calls w @ [CloseBrowser b]\<rparr>))
 \<and> (case closeBrowser e w of
        (Inl err, w1) \<Rightarrow> (Inl err, w1)
      | (Inr u, w1) \<Rightarrow> closeBrowser e w1) = closeBrowser e w
 \<and> (\<forall>w1. closeBrowser e w = (Inr (), w1) \<longrightarrow> closeBrowser e w1 = (Inr (), w1))"
proof (cases "browser w")
  case None
  then show ?thesis by (simp add: closeBrowser_def)
next
  case (Some b)
  show ?thesis
  proof (cases "browser_close e b")
    case None
    with Some show ?thesis by (simp add: closeBrowser_def did_def)
  next
    case (Some err)
    with \<open>browser w = Some b\<close> show ?thesis by (simp add: closeBrowser_def did_def)
  qed
qed

theorem closeBrowser_idempotent_witness:
  "closeBrowser good_engine (world0\<lparr>browser := Some 3\<rparr>)
     = (Inr (), \<lparr>browser = None, calls = [CloseBrowser 3], console = []\<rparr>)
 \<and> closeBrowser good_engine \<lparr>browser = None, calls = [CloseBrowser 3], console = []\<rparr>
     = (Inr (), \<lparr>browser = None, calls = [CloseBrowser 3], console = []\<rparr>)
 \<and> closeBrowser good_engine world0 = (Inr (), world0)"
  using closeBrowser_idempotent [of "world0\<lparr>browser := Some 3\<rparr>" good_engine]
        closeBrowser_idempotent [of "\<lparr>browser = None, calls = [CloseBrowser 3], console = []\<rparr>" good_engine]
        closeBrowser_idempotent [of world0 good_engine]
  by (simp add: world0_def good_engine_def)

section \<open>The print parameters\<close>

text \<open>
  A render that returns has called \<open>page.pdf\<close> with the print parameters built from
  its options, and returns what that call gave.
\<close>

lemma generatePdfBuffer_success_prints:
  assumes "generatePdfBuffer e w h opts = (Inr buf, w1)"
  shows "\<exists>new page. calls w1 = calls w @ new
           \<and> Pdf page (make_pdfOptions opts) \<in> set new
           \<and> pdf e page (str_of h) (make_pdfOptions opts) = Inr buf"
proof -
  from assms have t: "generatePdfBuffer_try e w h opts = (Inr buf, w1)"
    by (auto simp: generatePdfBuffer_def split: prod.splits sum.splits)
  then have valid: "\<not> (\<not> truthy h \<or> \<not> is_string h)"
    by (auto simp: generatePdfBuffer_try_def split: if_splits)
  obtain r0 w0 where init: "initializeBrowser e w = (r0, w0)"
    by (cases "initializeBrowser e w")
  from initializeBrowser_calls [of e w] init
  obtain n0 where n0: "calls w0 = calls w @ n0" by auto
  from t valid init n0 show ?thesis
    by (auto simp: generatePdfBuffer_try_def Let_def did_def
             split: sum.splits option.splits)
qed

text \<open>
  Whenever the call gets as far as \<open>page.pdf\<close> (the input is valid, the browser is
  there, the page is opened and the content is loaded), that call is made with the print
  parameters built from the options, whatever happens afterwards.
\<close>

lemma generatePdfBuffer_reaches_pdf:
  assumes valid: "truthy h \<and> is_string h"
    and init: "initializeBrowser e w = (Inr (), w0)"
    and b: "browser w0 = Some b"
    and page: "newPage e b = Inr page"
    and loaded: "setContent e page (str_of h) = None"
  shows "\<exists>new. calls (snd (generatePdfBuffer e w h opts)) = calls w @ new
           \<and> Pdf page (make_pdfOptions opts) \<in> set new"
proof -
  from initializeBrowser_calls [of e w] init
  obtain n0 where n0: "calls w0 = calls w @ n0" by auto
  have "\<exists>new. calls (snd (generatePdfBuffer_try e w h opts)) = calls w @ new
           \<and> Pdf page (make_pdfOptions opts) \<in> set new"
    using valid init b page loaded n0
    by (auto simp: generatePdfBuffer_try_def Let_def did_def split: sum.splits option.splits)
  moreover
  have "calls (snd (generatePdfBuffer e w h opts)) = calls (snd (generatePdfBuffer_try e w h opts))"
    by (auto simp: generatePdfBuffer_def logged_def split: prod.splits sum.splits)
  ultimately show ?thesis by simp
qed

text \<open>
  Claim C10.  The \<open>printBackground\<close> print parameter is false only when the option is
  the boolean \<open>false\<close>: it is true when the options or the field are absent and for
  every other value, such as \<open>0\<close>, \<open>null\<close> and the empty string.  This is the
  value the engine receives: every \<open>page.pdf\<close> call that \<open>generatePdfBuffer\<close> makes
  carries it; a render that returns has made such a call, and returns the bytes the
  engine gave for these parameters; and the call is made whenever the input is valid,
  the browser is there, the page opens and the content loads.
\<close>

theorem printBackground_unless_false:
  "pdf_printBackground (make_pdfOptions opts) = (option_of opts printBackground \<noteq> JBool False)
 \<and> pdf_printBackground (make_pdfOptions None)
 \<and> (\<forall>v p m. v \<noteq> JBool False \<longrightarrow>
        pdf_printBackground (make_pdfOptions (Some \<lparr>paperSize = p, margin = m, printBackground = v\<rparr>)))
 \<and> (\<forall>new page po.
        calls (snd (generatePdfBuffer e w h opts)) = calls w @ new \<and> Pdf page po \<in> set new \<longrightarrow>
        pdf_printBackground po = (option_of opts printBackground \<noteq> JBool False))
 \<and> (\<forall>buf w1. generatePdfBuffer e w h opts = (Inr buf, w1) \<longrightarrow>
        (\<exists>new page po.
           calls w1 = calls w @ new \<and> Pdf page po \<in> set new
         \<and> pdf e page (str_of h) po = Inr buf
         \<and> pdf_printBackground po = (option_of opts printBackground \<noteq> JBool False)))
 \<and> (\<forall>w0 b page.
        truthy h \<and> is_string h \<and> initializeBrowser e w = (Inr (), w0) \<and> browser w0 = Some b
        \<and> newPage e b = Inr page \<and> setContent e page (str_of h) = None \<longrightarrow>
        (\<exists>new po.
           calls (snd (generatePdfBuffer e w h opts)) = calls w @ new \<and> Pdf page po \<in> set new
         \<and> pdf_printBackground po = (option_of opts printBackground \<noteq> JBool False)))"
proof -
  have a: "pdf_printBackground (make_pdfOptions o1) = (option_of o1 printBackground \<noteq> JBool False)"
    for o1
    by (simp add: make_pdfOptions_def)
  have b: "pdf_printBackground po = (option_of opts printBackground \<noteq> JBool False)"
    if "calls (snd (generatePdfBuffer e w h opts)) = calls w @ new" "Pdf page po \<in> set new"
    for new page po
  proof -
    from generatePdfBuffer_calls [of e w h opts] that have "po = make_pdfOptions opts" by auto
    with a show ?thesis by simp
  qed
  have c: "\<exists>new page po.
             calls w1 = calls w @ new \<and> Pdf page po \<in> set new
           \<and> pdf e page (str_of h) po = Inr buf
           \<and> pdf_printBackground po = (option_of opts printBackground \<noteq> JBool False)"
    if "generatePdfBuffer e w h opts = (Inr buf, w1)" for buf w1
    using generatePdfBuffer_success_prints [OF that] a [of opts] by blast
  have d: "\<exists>new po.
             calls (snd (generatePdfBuffer e w h opts)) = calls w @ new \<and> Pdf page po \<in> set new
           \<and> pdf_printBackground po = (option_of opts printBackground \<noteq> JBool False)"
    if "truthy h \<and> is_string h" "initializeBrowser e w = (Inr (), w0)" "browser w0 = Some b"
       "newPage e b = Inr page" "setContent e page (str_of h) = None" for w0 b page
    using generatePdfBuffer_reaches_pdf [OF that, of opts] a [of opts] by blast
  have first: "pdf_printBackground (make_pdfOptions None)
             \<and> (\<forall>v p m. v \<noteq> JBool False \<longrightarrow>
                  pdf_printBackground (make_pdfOptions (Some \<lparr>paperSize = p, margin = m, printBackground = v\<rparr>)))"
    using a by (simp add: option_of_def)
  from a [of opts] first b c d show ?thesis by blast
qed

text \<open>
  On the engine in which every call succeeds, the options \<open>{printBackground: 0}\<close>,
  \<open>{printBackground: null}\<close> and \<open>{printBackground: ''}\<close> each make the one
  \<open>page.pdf\<close> call with background printing on, and \<open>{printBackground: false}\<close>
  makes it with background printing off.
\<close>

theorem printBackground_unless_false_witness:
  "calls (snd (generatePdfBuffer good_engine world0 (JStr hello) (Some (background_only (JNum 0)))))
     = [Launch, NewPage 0, SetContent 7 hello,
        Pdf 7 (make_pdfOptions (Some (background_only (JNum 0)))), ClosePage 7]
 \<and> pdf_printBackground (make_pdfOptions (Some (background_only (JNum 0))))
 \<and> calls (snd (generatePdfBuffer good_engine world0 (JStr hello) (Some (background_only JNull))))
     = [Launch, NewPage 0, SetContent 7 hello,
        Pdf 7 (make_pdfOptions (Some (background_only JNull))), ClosePage 7]
 \<and> pdf_printBackground (make_pdfOptions (Some (background_only JNull)))
 \<and> calls (snd (generatePdfBuffer good_engine world0 (JStr hello) (Some (background_only (JStr [])))))
     = [Launch, NewPage 0, SetContent 7 hello,
        Pdf 7 (make_pdfOptions (Some (background_only (JStr [])))), ClosePage 7]
 \<and> pdf_printBackground (make_pdfOptions (Some (background_only (JStr []))))
 \<and> calls (snd (generatePdfBuffer good_engine world0 (JStr hello) (Some (background_only (JBool False)))))
     = [Launch, NewPage 0, SetContent 7 hello,
        Pdf 7 (make_pdfOptions (Some (background_only (JBool False)))), ClosePage 7]
 \<and> \<not> pdf_printBackground (make_pdfOptions (Some (background_only (JBool False))))"
proof -
  have run: "calls (snd (generatePdfBuffer good_engine world0 (JStr hello) (Some (background_only v))))
     = [Launch, NewPage 0, SetContent 7 hello,
        Pdf 7 (make_pdfOptions (Some (background_only v))), ClosePage 7]" for v
    by (simp add: good_engine_renders rendered_def)
  have sent: "pdf_printBackground po = (v \<noteq> JBool False)"
    if "Pdf 7 po \<in> set [Launch, NewPage 0, SetContent 7 hello,
          Pdf 7 (make_pdfOptions (Some (background_only v))), ClosePage 7]" for v po
  proof -
    have "calls (snd (generatePdfBuffer good_engine world0 (JStr hello) (Some (background_only v))))
            = calls world0 @ [Launch, NewPage 0, SetContent 7 hello,
                Pdf 7 (make_pdfOptions (Some (background_only v))), ClosePage 7]"
      using run [of v] by (simp add: world0_def)
    with printBackground_unless_false
           [of "Some (background_only v)" good_engine world0 "JStr hello"] that
    have "pdf_printBackground po = (option_of (Some (background_only v)) printBackground \<noteq> JBool False)"
      by blast
    then show ?thesis by (simp add: option_of_def background_only_def)
  qed
  have on: "pdf_printBackground (make_pdfOptions (Some (background_only v)))" if "v \<noteq> JBool False" for v
    using sent [of "make_pdfOptions (Some (background_only v))" v] that by simp
  have off: "\<not> pdf_printBackground (make_pdfOptions (Some (background_only (JBool False))))"
    using sent [of "make_pdfOptions (Some (background_only (JBool False)))" "JBool False"] by simp
  from run on [of "JNum 0"] on [of JNull] on [of "JStr []"] off show ?thesis by simp
qed

section \<open>The file name of the download\<close>

lemma allowed_underscore: "allowed (CHR ''_'')"
  by (simp add: allowed_def)

lemma replace_disallowed_allowed: "\<forall>c \<in> set (replace_disallowed s). allowed c"
  by (auto simp: replace_disallowed_def allowed_underscore)

lemma replace_disallowed_length: "length (replace_disallowed s) = length s"
  by (simp add: replace_disallowed_def)

lemma replace_disallowed_nth:
  "i < length s \<Longrightarrow> replace_disallowed s ! i = (if allowed (s ! i) then s ! i else CHR ''_'')"
  by (simp add: replace_disallowed_def)

lemma separators_not_allowed: "\<not> allowed (CHR ''/'') \<and> \<not> allowed (CHR 0x5C) \<and> \<not> allowed (CHR ''.'')"
  by (simp add: allowed_def)

lemma replace_disallowed_no_separator:
  "CHR ''/'' \<notin> set (replace_disallowed s) \<and> CHR 0x5C \<notin> set (replace_disallowed s)
   \<and> CHR ''.'' \<notin> set (replace_disallowed s)"
  using replace_disallowed_allowed [of s] separators_not_allowed by blast

lemma replace_passwd: "replace_disallowed ''../../etc/passwd'' = ''______etc_passwd''"
  by (simp add: replace_disallowed_def allowed_def)

lemma strip_passwd: "strip_disallowed ''../../etc/passwd'' = ''etcpasswd''"
  by (simp add: strip_disallowed_def allowed_def)

lemma replace_document: "replace_disallowed ''document'' = ''document''"
  by (simp add: replace_disallowed_def allowed_def)

lemma route_download_rendered:
  assumes valid: "truthy (field body ''htmlTemplate'') \<and> is_string (field body ''htmlTemplate'')"
    and ok: "generatePdfBuffer e w (field body ''htmlTemplate'') (Some (build_options body)) = (Inr buf, w1)"
  shows "route_download tm e w body =
           (case call_replace tm (js_or (field body ''fileName'') (JStr ''document'')) of
              Inl err \<Rightarrow> caught err w1
            | Inr name \<Rightarrow> (attachment name buf, w1))"
  using valid ok by (simp add: route_download_def Let_def)

lemma route_download_threw:
  assumes valid: "truthy (field body ''htmlTemplate'') \<and> is_string (field body ''htmlTemplate'')"
    and ko: "generatePdfBuffer e w (field body ''htmlTemplate'') (Some (build_options body)) = (Inl err, w1)"
  shows "route_download tm e w body = caught err w1"
  using valid ko by (simp add: route_download_def Let_def)

text \<open>
  Claim C4, as amended.  When the body is valid and the render succeeds, the download
  route answers with the attachment whose \<open>Content-Disposition\<close> names
  \<open>replace_disallowed s\<close> followed by \<open>.pdf\<close>, for a string \<open>fileName\<close> \<open>s\<close>
  that is not empty, and \<open>document.pdf\<close> when \<open>fileName\<close> is absent or empty.
  \<open>replace_disallowed\<close> keeps the length: it puts an underscore in the place of every
  character outside \<open>[A-Za-z0-9-_]\<close> and keeps the others, so the name has only
  characters of that class and neither a slash nor a backslash.  For
  \<open>../../etc/passwd\<close> the name is \<open>______etc_passwd\<close>.
\<close>

theorem download_filename_replaced:
  assumes valid: "truthy (field body ''htmlTemplate'') \<and> is_string (field body ''htmlTemplate'')"
    and ok: "generatePdfBuffer e w (field body ''htmlTemplate'') (Some (build_options body)) = (Inr buf, w1)"
  shows "(\<forall>s. field body ''fileName'' = JStr s \<longrightarrow>
            route_download tm e w body =
              (attachment (replace_disallowed (if s = [] then ''document'' else s)) buf, w1))
       \<and> (map_of body ''fileName'' = None \<longrightarrow>
            route_download tm e w body = (attachment ''document'' buf, w1))
       \<and> (\<forall>name. map_of (headers (attachment name buf)) ''Content-Disposition''
                    = Some (JStr (content_disposition name))
                \<and> content_disposition name
                    = ''attachment; filename='' @ [CHR 0x22] @ name @ ''.pdf'' @ [CHR 0x22])
       \<and> (\<forall>s. length (replace_disallowed s) = length s
              \<and> (\<forall>i < length s. replace_disallowed s ! i = (if allowed (s ! i) then s ! i else CHR ''_''))
              \<and> (\<forall>c \<in> set (replace_disallowed s). allowed c)
              \<and> CHR ''/'' \<notin> set (replace_disallowed s)
              \<and> CHR 0x5C \<notin> set (replace_disallowed s))
       \<and> replace_disallowed ''../../etc/passwd'' = ''______etc_passwd''"
proof -
  note r = route_download_rendered [OF valid ok, of tm]
  have given: "route_download tm e w body =
                 (attachment (replace_disallowed (if s = [] then ''document'' else s)) buf, w1)"
    if "field body ''fileName'' = JStr s" for s
    using r that by (simp add: call_replace_def js_or_def)
  have absent: "route_download tm e w body = (attachment ''document'' buf, w1)"
    if "map_of body ''fileName'' = None"
  proof -
    from that have "field body ''fileName'' = JUndefined" by (simp add: field_def)
    with r show ?thesis by (simp add: call_replace_def js_or_def replace_document)
  qed
  have header: "map_of (headers (attachment name buf)) ''Content-Disposition''
                    = Some (JStr (content_disposition name))
                \<and> content_disposition name
                    = ''attachment; filename='' @ [CHR 0x22] @ name @ ''.pdf'' @ [CHR 0x22]" for name
    by (simp add: attachment_def content_disposition_def)
  have chars: "length (replace_disallowed s) = length s
              \<and> (\<forall>i < length s. replace_disallowed s ! i = (if allowed (s ! i) then s ! i else CHR ''_''))
              \<and> (\<forall>c \<in> set (replace_disallowed s). allowed c)
              \<and> CHR ''/'' \<notin> set (replace_disallowed s)
              \<and> CHR 0x5C \<notin> set (replace_disallowed s)" for s
    using replace_disallowed_allowed [of s] replace_disallowed_no_separator [of s]
    by (simp add: replace_disallowed_length replace_disallowed_nth)
  from given absent header chars replace_passwd show ?thesis by blast
qed


lemma body_named_fields:
  "field (body_named v) ''htmlTemplate'' = JStr hello"
  "field (body_named v) ''fileName'' = v"
  "build_options (body_named v) = \<lparr>paperSize = JUndefined, margin = JUndefined, printBackground = JUndefined\<rparr>"
  by (simp_all add: body_named_def field_def build_options_def)

lemma hello_valid: "truthy (JStr hello) \<and> is_string (JStr hello)"
  by (simp add: hello_def)

theorem download_filename_replaced_witness:
  "route_download ''t'' good_engine world0 (body_named (JStr ''../../etc/passwd''))
     = (attachment ''______etc_passwd'' pdf_bytes, rendered (Some (build_options (body_named (JStr ''../../etc/passwd'')))))"
proof -
  let ?body = "body_named (JStr ''../../etc/passwd'')"
  have valid: "truthy (field ?body ''htmlTemplate'') \<and> is_string (field ?body ''htmlTemplate'')"
    using hello_valid by (simp add: body_named_fields)
  have ok: "generatePdfBuffer good_engine world0 (field ?body ''htmlTemplate'') (Some (build_options ?body))
              = (Inr pdf_bytes, rendered (Some (build_options ?body)))"
    by (simp only: body_named_fields good_engine_renders)
  from download_filename_replaced [OF valid ok, of "''t''"]
  show ?thesis by (simp add: body_named_fields)
qed

text \<open>
  Claim C4 as stated fails: for \<open>../../etc/passwd\<close> the header names
  \<open>______etc_passwd\<close>, while stripping the characters outside the class would give
  \<open>etcpasswd\<close>.
\<close>

theorem download_filename_not_stripped:
  "map_of (headers (fst (route_download ''t'' good_engine world0 (body_named (JStr ''../../etc/passwd'')))))
          ''Content-Disposition''
     = Some (JStr (content_disposition ''______etc_passwd''))
 \<and> content_disposition ''______etc_passwd''
     \<noteq> content_disposition (strip_disallowed ''../../etc/passwd'')"
proof -
  let ?body = "body_named (JStr ''../../etc/passwd'')"
  have valid: "truthy (field ?body ''htmlTemplate'') \<and> is_string (field ?body ''htmlTemplate'')"
    using hello_valid by (simp add: body_named_fields)
  have ok: "generatePdfBuffer good_engine world0 (field ?body ''htmlTemplate'') (Some (build_options ?body))
              = (Inr pdf_bytes, rendered (Some (build_options ?body)))"
    by (simp only: body_named_fields good_engine_renders)
  have "route_download ''t'' good_engine world0 ?body
          = (attachment ''______etc_passwd'' pdf_bytes, rendered (Some (build_options ?body)))"
    using route_download_rendered [OF valid ok, of "''t''"]
    by (simp add: body_named_fields call_replace_def js_or_def replace_passwd)
  then show ?thesis
    by (simp add: attachment_def content_disposition_def strip_passwd)
qed

section \<open>Errors of the render\<close>

lemma generation_failed_shape:
  "status (generation_failed err) = 500
   \<and> payload (generation_failed err) =
       Json (JObj [(''error'', JStr ''PDF generation failed''), (''message'', JStr (message_of err))])"
  by (simp add: generation_failed_def)

lemma status_attachment: "status (attachment name buf) = 200"
  by (simp add: attachment_def)

text \<open>
  Claim C6, as amended.  For a valid body, when the rendering call throws \<open>err\<close>,
  each route answers 500 with \<open>error\<close> and \<open>message\<close>, the message being the
  message of \<open>err\<close> when it is an \<open>Error\<close> and \<open>Unknown error occurred\<close>
  otherwise.  When the rendering call returns, the legacy and the JSON route answer 200;
  the download route answers 500 exactly when \<open>fileName\<close> is truthy and not a
  string, and 200 otherwise.
\<close>

theorem render_error_gives_500:
  assumes valid: "truthy (field body ''htmlTemplate'') \<and> is_string (field body ''htmlTemplate'')"
  shows "(\<forall>err w1. generatePdf e w (field body ''htmlTemplate'') None = (Inl err, w1) \<longrightarrow>
            route_GeneratePdf e w body = (generation_failed err, logged err w1))
       \<and> (\<forall>err w1. generatePdf e w (field body ''htmlTemplate'') (Some (build_options body)) = (Inl err, w1) \<longrightarrow>
            route_generate e w body = (generation_failed err, logged err w1))
       \<and> (\<forall>err w1. generatePdfBuffer e w (field body ''htmlTemplate'') (Some (build_options body)) = (Inl err, w1) \<longrightarrow>
            route_download tm e w body = (generation_failed err, logged err w1))
       \<and> (\<forall>err. status (generation_failed err) = 500
              \<and> payload (generation_failed err) =
                  Json (JObj [(''error'', JStr ''PDF generation failed''),
                              (''message'', JStr (message_of err))]))
       \<and> (\<forall>m. message_of (ErrorObj m) = m)
       \<and> (\<forall>v. message_of (NonError v) = ''Unknown error occurred'')
       \<and> (\<forall>s w1. generatePdf e w (field body ''htmlTemplate'') None = (Inr s, w1) \<longrightarrow>
            status (fst (route_GeneratePdf e w body)) = 200)
       \<and> (\<forall>s w1. generatePdf e w (field body ''htmlTemplate'') (Some (build_options body)) = (Inr s, w1) \<longrightarrow>
            status (fst (route_generate e w body)) = 200)
       \<and> (\<forall>buf w1. generatePdfBuffer e w (field body ''htmlTemplate'') (Some (build_options body)) = (Inr buf, w1) \<longrightarrow>
            (status (fst (route_download tm e w body)) = 500)
              = (truthy (field body ''fileName'') \<and> \<not> is_string (field body ''fileName''))
          \<and> (status (fst (route_download tm e w body)) = 200)
              = (\<not> truthy (field body ''fileName'') \<or> is_string (field body ''fileName'')))"
proof -
  have legacy_err: "route_GeneratePdf e w body = (generation_failed err, logged err w1)"
    if "generatePdf e w (field body ''htmlTemplate'') None = (Inl err, w1)" for err w1
    using valid that by (simp add: route_GeneratePdf_def caught_def)
  have json_err: "route_generate e w body = (generation_failed err, logged err w1)"
    if "generatePdf e w (field body ''htmlTemplate'') (Some (build_options body)) = (Inl err, w1)" for err w1
    using valid that by (simp add: route_generate_def caught_def)
  have dl_err: "route_download tm e w body = (generation_failed err, logged err w1)"
    if "generatePdfBuffer e w (field body ''htmlTemplate'') (Some (build_options body)) = (Inl err, w1)" for err w1
    using route_download_threw [OF valid that] by (simp add: caught_def)
  have legacy_ok: "status (fst (route_GeneratePdf e w body)) = 200"
    if "generatePdf e w (field body ''htmlTemplate'') None = (Inr s, w1)" for s w1
    using valid that by (simp add: route_GeneratePdf_def)
  have json_ok: "status (fst (route_generate e w body)) = 200"
    if "generatePdf e w (field body ''htmlTemplate'') (Some (build_options body)) = (Inr s, w1)" for s w1
    using valid that by (simp add: route_generate_def)
  have dl_ok: "(status (fst (route_download tm e w body)) = 500)
              = (truthy (field body ''fileName'') \<and> \<not> is_string (field body ''fileName''))
          \<and> (status (fst (route_download tm e w body)) = 200)
              = (\<not> truthy (field body ''fileName'') \<or> is_string (field body ''fileName''))"
    if "generatePdfBuffer e w (field body ''htmlTemplate'') (Some (build_options body)) = (Inr buf, w1)" for buf w1
    using route_download_rendered [OF valid that, of tm]
    by (auto simp: call_replace_def js_or_def caught_def generation_failed_shape status_attachment)
  from legacy_err json_err dl_err legacy_ok json_ok dl_ok generation_failed_shape
  show ?thesis by (simp only: message_of.simps) blast
qed


lemma failing_engine_throws:
  "generatePdfBuffer failing_engine world0 (JStr hello) options =
     (Inl (ErrorObj ''net::ERR_FAILED''),
      \<lparr> browser = Some 0,
        calls = [Launch, NewPage 0, SetContent 7 hello],
        console = [ErrorObj ''net::ERR_FAILED''] \<rparr>)"
  by (simp add: generatePdfBuffer_def generatePdfBuffer_try_def initializeBrowser_def
        failing_engine_def good_engine_def world0_def hello_def did_def logged_def
        launches_def Let_def)

theorem render_error_gives_500_witness:
  "route_download ''t'' failing_engine world0 (body_named (JStr ''report''))
     = (generation_failed (ErrorObj ''net::ERR_FAILED''),
        \<lparr> browser = Some 0,
          calls = [Launch, NewPage 0, SetContent 7 hello],
          console = [ErrorObj ''net::ERR_FAILED'', ErrorObj ''net::ERR_FAILED''] \<rparr>)
 \<and> status (fst (route_download ''t'' good_engine world0 (body_named (JStr ''report'')))) = 200"
proof -
  let ?body = "body_named (JStr ''report'')"
  have valid: "truthy (field ?body ''htmlTemplate'') \<and> is_string (field ?body ''htmlTemplate'')"
    using hello_valid by (simp add: body_named_fields)
  have ko: "generatePdfBuffer failing_engine world0 (field ?body ''htmlTemplate'') (Some (build_options ?body))
              = (Inl (ErrorObj ''net::ERR_FAILED''),
                 \<lparr> browser = Some 0,
                   calls = [Launch, NewPage 0, SetContent 7 hello],
                   console = [ErrorObj ''net::ERR_FAILED''] \<rparr>)"
    by (simp only: body_named_fields failing_engine_throws)
  have ok: "generatePdfBuffer good_engine world0 (field ?body ''htmlTemplate'') (Some (build_options ?body))
              = (Inr pdf_bytes, rendered (Some (build_options ?body)))"
    by (simp only: body_named_fields good_engine_renders)
  from render_error_gives_500 [OF valid, of failing_engine world0 "''t''"] ko
  have a: "route_download ''t'' failing_engine world0 ?body
             = (generation_failed (ErrorObj ''net::ERR_FAILED''),
                logged (ErrorObj ''net::ERR_FAILED'')
                  \<lparr> browser = Some 0,
                    calls = [Launch, NewPage 0, SetContent 7 hello],
                    console = [ErrorObj ''net::ERR_FAILED''] \<rparr>)"
    by blast
  from render_error_gives_500 [OF valid, of good_engine world0 "''t''"] ok
  have b: "(status (fst (route_download ''t'' good_engine world0 ?body)) = 200)
              = (\<not> truthy (field ?body ''fileName'') \<or> is_string (field ?body ''fileName''))"
    by blast
  from a b show ?thesis by (simp add: logged_def body_named_fields)
qed

text \<open>
  Claim C6 as stated fails in its last part: with \<open>fileName = 5\<close> the render
  succeeds and the download route answers 500.
\<close>

theorem download_500_after_successful_render:
  "generatePdfBuffer good_engine world0 (JStr hello) (Some (build_options (body_named (JNum 5))))
     = (Inr pdf_bytes, rendered (Some (build_options (body_named (JNum 5)))))
 \<and> status (fst (route_download ''t'' good_engine world0 (body_named (JNum 5)))) = 500"
proof -
  let ?body = "body_named (JNum 5)"
  have valid: "truthy (field ?body ''htmlTemplate'') \<and> is_string (field ?body ''htmlTemplate'')"
    using hello_valid by (simp add: body_named_fields)
  have ok: "generatePdfBuffer good_engine world0 (field ?body ''htmlTemplate'') (Some (build_options ?body))
              = (Inr pdf_bytes, rendered (Some (build_options ?body)))"
    by (simp only: body_named_fields good_engine_renders)
  have "route_download ''t'' good_engine world0 ?body
          = caught (ErrorObj ''t'') (rendered (Some (build_options ?body)))"
    using route_download_rendered [OF valid ok, of "''t''"]
    by (simp add: body_named_fields call_replace_def js_or_def)
  then show ?thesis
    using good_engine_renders [of "Some (build_options ?body)"]
    by (simp add: caught_def generation_failed_def)
qed

section \<open>A file name that is not a string\<close>

text \<open>
  Claim C9, as amended.  For a valid body whose render succeeds and whose \<open>fileName\<close>
  is not a string: if \<open>fileName\<close> is truthy (a number other than zero, \<open>true\<close>,
  an array, an object), the \<open>replace\<close> call throws a \<open>TypeError\<close> and the route
  answers 500 with \<open>error\<close> and the \<open>TypeError\<close>'s text as \<open>message\<close>;
  if it is falsy (\<open>0\<close>, \<open>false\<close>, \<open>null\<close>, absent), the default
  \<open>document\<close> takes its place and the attachment \<open>document.pdf\<close> is sent.
\<close>

theorem download_nonstring_fileName:
  assumes valid: "truthy (field body ''htmlTemplate'') \<and> is_string (field body ''htmlTemplate'')"
    and ok: "generatePdfBuffer e w (field body ''htmlTemplate'') (Some (build_options body)) = (Inr buf, w1)"
    and ns: "\<not> is_string (field body ''fileName'')"
  shows "(truthy (field body ''fileName'') \<longrightarrow>
            call_replace tm (js_or (field body ''fileName'') (JStr ''document'')) = Inl (ErrorObj tm)
          \<and> route_download tm e w body = (generation_failed (ErrorObj tm), logged (ErrorObj tm) w1)
          \<and> status (fst (route_download tm e w body)) = 500
          \<and> payload (fst (route_download tm e w body)) =
               Json (JObj [(''error'', JStr ''PDF generation failed''), (''message'', JStr tm)]))
       \<and> (\<not> truthy (field body ''fileName'') \<longrightarrow>
            route_download tm e w body = (attachment ''document'' buf, w1)
          \<and> status (fst (route_download tm e w body)) = 200)"
proof (cases "truthy (field body ''fileName'')")
  case True
  with ns have thrown: "call_replace tm (js_or (field body ''fileName'') (JStr ''document'')) = Inl (ErrorObj tm)"
    by (simp add: call_replace_def js_or_def)
  with route_download_rendered [OF valid ok, of tm]
  have "route_download tm e w body = (generation_failed (ErrorObj tm), logged (ErrorObj tm) w1)"
    by (simp add: caught_def)
  with True thrown show ?thesis by (simp add: generation_failed_def)
next
  case False
  then have "call_replace tm (js_or (field body ''fileName'') (JStr ''document'')) = Inr ''document''"
    by (simp add: call_replace_def js_or_def replace_document)
  with route_download_rendered [OF valid ok, of tm]
  have "route_download tm e w body = (attachment ''document'' buf, w1)" by simp
  with False show ?thesis by (simp add: status_attachment)
qed

theorem download_nonstring_fileName_witness:
  "route_download ''t'' good_engine world0 (body_named (JNum 5))
     = (generation_failed (ErrorObj ''t''),
        logged (ErrorObj ''t'') (rendered (Some (build_options (body_named (JNum 5))))))
 \<and> route_download ''t'' good_engine world0 (body_named JNull)
     = (attachment ''document'' pdf_bytes, rendered (Some (build_options (body_named JNull))))"
proof -
  have valid: "truthy (field (body_named v) ''htmlTemplate'') \<and> is_string (field (body_named v) ''htmlTemplate'')" for v
    using hello_valid by (simp add: body_named_fields)
  have ok: "generatePdfBuffer good_engine world0 (field (body_named v) ''htmlTemplate'') (Some (build_options (body_named v)))
              = (Inr pdf_bytes, rendered (Some (build_options (body_named v))))" for v
    by (simp only: body_named_fields good_engine_renders)
  have n5: "\<not> is_string (field (body_named (JNum 5)) ''fileName'')"
    by (simp add: body_named_fields)
  have n0: "\<not> is_string (field (body_named JNull) ''fileName'')"
    by (simp add: body_named_fields)
  from download_nonstring_fileName [OF valid ok n5, of "''t''"]
       download_nonstring_fileName [OF valid ok n0, of "''t''"]
  show ?thesis by (simp add: body_named_fields)
qed

text \<open>
  Claim C9 as stated fails for the number \<open>0\<close>: it is present and not a string,
  and the route answers 200 with \<open>document.pdf\<close>.
\<close>

theorem download_zero_fileName_defaulted:
  "\<not> is_string (JNum 0)
 \<and> route_download ''t'' good_engine world0 (body_named (JNum 0))
     = (attachment ''document'' pdf_bytes, rendered (Some (build_options (body_named (JNum 0)))))
 \<and> status (attachment ''document'' pdf_bytes) = 200"
proof -
  let ?body = "body_named (JNum 0)"
  have valid: "truthy (field ?body ''htmlTemplate'') \<and> is_string (field ?body ''htmlTemplate'')"
    using hello_valid by (simp add: body_named_fields)
  have ok: "generatePdfBuffer good_engine world0 (field ?body ''htmlTemplate'') (Some (build_options ?body))
              = (Inr pdf_bytes, rendered (Some (build_options ?body)))"
    by (simp only: body_named_fields good_engine_renders)
  have "route_download ''t'' good_engine world0 ?body
          = (attachment ''document'' pdf_bytes, rendered (Some (build_options ?body)))"
    using route_download_rendered [OF valid ok, of "''t''"]
    by (simp add: body_named_fields call_replace_def js_or_def replace_document)
  then show ?thesis by (simp add: status_attachment)
qed

section \<open>Overlapping callers\<close>

lemma resume_in_sequence:
  assumes "resume e Entering w = (c, w1)" and "resume e c w1 = (c2, w2)"
  shows "(c2 = Returned \<and> initializeBrowser e w = (Inr (), w2))
       \<or> (\<exists>err. c2 = Threw err \<and> initializeBrowser e w = (Inl err, w2))"
proof (cases "browser w")
  case None
  show ?thesis
  proof (cases "launch e (launches w)")
    case (Inl err)
    with None assms show ?thesis by (auto simp: initializeBrowser_def)
  next
    case (Inr b)
    with None assms show ?thesis by (auto simp: initializeBrowser_def)
  qed
next
  case (Some b)
  with assms show ?thesis by (auto simp: initializeBrowser_def)
qed

lemma entering_with_browser: "browser w \<noteq> None \<Longrightarrow> resume e Entering w = (Returned, w)"
  by simp

lemma callers_in_turn_launch_once:
  "run good_engine [0, 0, 1, 1] ([Entering, Entering], world0)
     = ([Returned, Returned], \<lparr>browser = Some 0, calls = [Launch], console = []\<rparr>)"
  by (simp add: run_def step_def good_engine_def world0_def did_def launches_def)

text \<open>
  For any engine: two callers that overlap in a world without a browser, both launches
  succeeding.
\<close>

lemma two_callers_overlap:
  assumes "browser w = None" and "launch e (launches w) = Inr b0"
    and "launch e (Suc (launches w)) = Inr b1"
  shows "run e [0, 1, 0, 1] ([Entering, Entering], w)
           = ([Returned, Returned], w\<lparr>browser := Some b1, calls := calls w @ [Launch, Launch]\<rparr>)"
  using assms by (simp add: run_def step_def did_def launches_def)

text \<open>
  Claim C1 says that callers of the initialization that overlap while no handle exists
  launch one engine process between them.  The code does not do so.  Two callers enter
  \<open>initializeBrowser\<close> one after the other before either launch has resolved: each
  finds \<open>this.browser\<close> null and calls \<open>puppeteer.launch\<close>; then both launches
  resolve, and the second assignment replaces the first browser, which nothing refers to
  any more.  Two launches were made.
\<close>

theorem overlapping_callers_launch_twice:
  "run good_engine [0, 1, 0, 1] ([Entering, Entering], world0)
     = ([Returned, Returned], \<lparr>browser = Some 1, calls = [Launch, Launch], console = []\<rparr>)"
proof -
  have s1: "step good_engine ([Entering, Entering], world0) 0
              = ([Awaiting (Inr 0), Entering], \<lparr>browser = None, calls = [Launch], console = []\<rparr>)"
    by (simp add: step_def good_engine_def world0_def did_def launches_def)
  have s2: "step good_engine ([Awaiting (Inr 0), Entering], \<lparr>browser = None, calls = [Launch], console = []\<rparr>) 1
              = ([Awaiting (Inr 0), Awaiting (Inr 1)], \<lparr>browser = None, calls = [Launch, Launch], console = []\<rparr>)"
    by (simp add: step_def good_engine_def did_def launches_def)
  have s3: "step good_engine ([Awaiting (Inr 0), Awaiting (Inr 1)], \<lparr>browser = None, calls = [Launch, Launch], console = []\<rparr>) 0
              = ([Returned, Awaiting (Inr 1)], \<lparr>browser = Some 0, calls = [Launch, Launch], console = []\<rparr>)"
    by (simp add: step_def)
  have s4: "step good_engine ([Returned, Awaiting (Inr 1)], \<lparr>browser = Some 0, calls = [Launch, Launch], console = []\<rparr>) 1
              = ([Returned, Returned], \<lparr>browser = Some 1, calls = [Launch, Launch], console = []\<rparr>)"
    by (simp add: step_def)
  show ?thesis by (simp only: run_def foldl.simps s1 s2 s3 s4)
qed

theorem overlapping_callers_launch_twice_witness:
  "launches (snd (run good_engine [0, 1, 0, 1] ([Entering, Entering], world0))) = 2"
  using overlapping_callers_launch_twice by (simp add: launches_def)

section \<open>Release of the page\<close>

lemma generatePdfBuffer_success_closes_page:
  assumes "generatePdfBuffer e w h opts = (Inr buf, w1)"
  shows "\<exists>b page. browser w1 = Some b \<and> newPage e b = Inr page
           \<and> NewPage b \<in> set (calls w1) \<and> last (calls w1) = ClosePage page"
proof -
  from assms have t: "generatePdfBuffer_try e w h opts = (Inr buf, w1)"
    by (auto simp: generatePdfBuffer_def split: prod.splits sum.splits)
  then have valid: "\<not> (\<not> truthy h \<or> \<not> is_string h)"
    by (auto simp: generatePdfBuffer_try_def split: if_splits)
  obtain r0 w0 where init: "initializeBrowser e w = (r0, w0)"
    by (cases "initializeBrowser e w")
  from t valid init show ?thesis
    by (auto simp: generatePdfBuffer_try_def Let_def did_def
             split: sum.splits option.splits)
qed

text \<open>
  On a throwing exit no page is closed, unless the \<open>page.close\<close> call itself is what
  threw.
\<close>

lemma generatePdfBuffer_failure_closes_nothing:
  assumes "generatePdfBuffer e w h opts = (Inl err, w1)"
  shows "\<exists>new. calls w1 = calls w @ new
           \<and> (\<forall>page. ClosePage page \<in> set new \<longrightarrow> page_close e page = Some err)"
proof -
  from assms obtain w0 where t: "generatePdfBuffer_try e w h opts = (Inl err, w0)"
    and w1: "w1 = logged err w0"
    by (auto simp: generatePdfBuffer_def split: prod.splits sum.splits)
  have "\<exists>new. calls w0 = calls w @ new
           \<and> (\<forall>page. ClosePage page \<in> set new \<longrightarrow> page_close e page = Some err)"
  proof (cases "\<not> truthy h \<or> \<not> is_string h")
    case True
    with t show ?thesis by (auto simp: generatePdfBuffer_try_def)
  next
    case False
    obtain r0 v0 where init: "initializeBrowser e w = (r0, v0)"
      by (cases "initializeBrowser e w")
    from initializeBrowser_calls [of e w] init
    obtain n0 where n0: "calls v0 = calls w @ n0" "set n0 \<subseteq> {Launch}" by auto
    from t False init n0 show ?thesis
      by (auto simp: generatePdfBuffer_try_def Let_def did_def
               split: sum.splits option.splits)
  qed
  with w1 show ?thesis by (simp add: logged_def)
qed

text \<open>
  Claim C2 says that the page opened by a call is closed on every exit path.  The code
  closes it on the successful path only.  With an engine whose \<open>setContent\<close> throws,
  the call opens page 7, throws the engine's error, and has made no \<open>page.close\<close>
  call.
\<close>

theorem page_left_open_when_loading_fails:
  "newPage failing_engine 0 = Inr 7
 \<and> fst (generatePdfBuffer failing_engine world0 (JStr hello) None) = Inl (ErrorObj ''net::ERR_FAILED'')
 \<and> calls (snd (generatePdfBuffer failing_engine world0 (JStr hello) None))
      = [Launch, NewPage 0, SetContent 7 hello]
 \<and> ClosePage 7 \<notin> set (calls (snd (generatePdfBuffer failing_engine world0 (JStr hello) None)))"
proof -
  have "newPage failing_engine 0 = Inr 7"
    by (simp add: failing_engine_def good_engine_def)
  with failing_engine_throws [of None] show ?thesis by simp
qed

theorem page_left_open_when_loading_fails_witness:
  "length (calls (snd (generatePdfBuffer failing_engine world0 (JStr hello) None))) = 3"
  using page_left_open_when_loading_fails by simp

section \<open>Defaults of the print parameters\<close>

lemma make_pdfOptions_absent:
  "make_pdfOptions None
     = \<lparr>pdf_format = JStr ''A4'', pdf_margin = default_margin, pdf_printBackground = True\<rparr>"
  by (simp add: make_pdfOptions_def option_of_def js_or_def)

lemma make_pdfOptions_defaults:
  "(\<not> truthy (paperSize opts) \<longrightarrow> pdf_format (make_pdfOptions (Some opts)) = JStr ''A4'')
 \<and> (truthy (paperSize opts) \<longrightarrow> pdf_format (make_pdfOptions (Some opts)) = paperSize opts)
 \<and> (\<not> truthy (margin opts) \<longrightarrow> pdf_margin (make_pdfOptions (Some opts)) = default_margin)
 \<and> (truthy (margin opts) \<longrightarrow> pdf_margin (make_pdfOptions (Some opts)) = margin opts)"
  by (simp add: make_pdfOptions_def option_of_def js_or_def)

lemma default_margin_sides:
  "get_prop default_margin ''top'' = JStr ''20px''
 \<and> get_prop default_margin ''bottom'' = JStr ''20px''
 \<and> get_prop default_margin ''left'' = JStr ''20px''
 \<and> get_prop default_margin ''right'' = JStr ''20px''"
  by (simp add: default_margin_def field_def)

text \<open>
  Claim C3 says that each margin side that is not given is \<open>20px\<close>, also when a
  margin object gives some sides only.  The code takes the default object only when no
  margin object is given.  With \<open>{margin: {top: '10px'}}\<close> the engine receives paper
  size \<open>A4\<close>, background printing on, and the margin object as it came: its
  \<open>bottom\<close> is \<open>undefined\<close>.
\<close>

theorem partial_margin_not_completed:
  "calls (snd (generatePdfBuffer good_engine world0 (JStr hello) (Some top_only)))
     = [Launch, NewPage 0, SetContent 7 hello,
        Pdf 7 \<lparr>pdf_format = JStr ''A4'', pdf_margin = JObj [(''top'', JStr ''10px'')],
               pdf_printBackground = True\<rparr>,
        ClosePage 7]
 \<and> get_prop (pdf_margin (make_pdfOptions (Some top_only))) ''bottom'' = JUndefined"
proof -
  have "make_pdfOptions (Some top_only)
          = \<lparr>pdf_format = JStr ''A4'', pdf_margin = JObj [(''top'', JStr ''10px'')],
               pdf_printBackground = True\<rparr>"
    by (simp add: make_pdfOptions_def option_of_def js_or_def top_only_def)
  with good_engine_renders [of "Some top_only"] show ?thesis
    by (simp add: rendered_def field_def)
qed

theorem partial_margin_not_completed_witness:
  "get_prop (pdf_margin (make_pdfOptions (Some top_only))) ''bottom'' \<noteq> JStr ''20px''"
  using partial_margin_not_completed by simp

end
